theory Spec2Isabelle
  imports Complex_Main
begin

section \<open>Data model\<close>

text \<open>
  The utilities of \<^verbatim>\<open>utils/data_processing.py\<close> work on pandas frames and Python floats.
  Floats are modelled by exact reals; the one non-number the computations produce on
  well-formed input, NaN (the standard deviation of fewer than two values, a mean of no
  values, \<open>0/0\<close>), is a value of its own. Every comparison with NaN is false, as in Python.
\<close>

datatype pyfloat = Fin real | NaN

fun fl_gt :: "pyfloat \<Rightarrow> real \<Rightarrow> bool" where
  "fl_gt (Fin x) y = (x > y)"
| "fl_gt NaN y = False"

fun gt_fl :: "real \<Rightarrow> pyfloat \<Rightarrow> bool" where
  "gt_fl x (Fin y) = (x > y)"
| "gt_fl x NaN = False"

text \<open>
  One traffic observation. The timestamp is an instant in whole seconds since the epoch
  (what \<^verbatim>\<open>pd.to_datetime\<close> yields); a field is meaningful only when the frame
  has its column.
\<close>

record observation =
  timestamp :: int
  source_ip :: string
  bytes :: real

text \<open>
  A frame has its column labels, its index and its rows. The index is the default
  positional one, or a column that \<^verbatim>\<open>set_index\<close> has moved out of the columns.
\<close>

datatype df_index = RangeIndex | ColumnIndex string

record data_frame =
  columns :: "string list"
  index :: df_index
  rows :: "observation list"

text \<open>\<^verbatim>\<open>DataFrame.empty\<close>: true when any axis has length 0.\<close>

definition df_empty :: "data_frame \<Rightarrow> bool" where
  "df_empty data = (columns data = [] \<or> rows data = [])"

text \<open>\<^verbatim>\<open>data.set_index(c)\<close> (with the default \<^verbatim>\<open>drop=True\<close>).\<close>

definition set_index :: "string \<Rightarrow> data_frame \<Rightarrow> data_frame" where
  "set_index c data = data\<lparr>columns := remove1 c (columns data), index := ColumnIndex c\<rparr>"

subsection \<open>Series operations\<close>

definition series_mean :: "real list \<Rightarrow> pyfloat" where
  "series_mean xs = (if xs = [] then NaN else Fin (sum_list xs / real (length xs)))"

text \<open>\<^verbatim>\<open>Series.std()\<close>: the sample standard deviation (\<^verbatim>\<open>ddof=1\<close>).\<close>

definition series_std :: "real list \<Rightarrow> pyfloat" where
  "series_std xs =
     (if length xs < 2 then NaN
      else let m = sum_list xs / real (length xs)
           in Fin (sqrt (sum_list (map (\<lambda>x. (x - m)\<^sup>2) xs) / real (length xs - 1))))"

definition series_max :: "real list \<Rightarrow> pyfloat" where
  "series_max xs = (case xs of [] \<Rightarrow> NaN | x # ys \<Rightarrow> Fin (fold max ys x))"

text \<open>
  \<^verbatim>\<open>resample('1T')\<close>: one bin per minute from the earliest to the latest
  observation, the minutes without observations included.
\<close>

definition minute_floor :: "int \<Rightarrow> int" where
  "minute_floor t = t div 60"

definition resample_bins :: "observation list \<Rightarrow> int list" where
  "resample_bins rs =
     (case map (minute_floor \<circ> timestamp) rs of
        [] \<Rightarrow> []
      | m # ms \<Rightarrow> [fold min ms m .. fold max ms m])"

definition resample_size :: "observation list \<Rightarrow> (int \<times> nat) list" where
  "resample_size rs =
     map (\<lambda>b. (b, length (filter (\<lambda>r. minute_floor (timestamp r) = b) rs))) (resample_bins rs)"

definition resample_bytes_sum :: "observation list \<Rightarrow> (int \<times> real) list" where
  "resample_bytes_sum rs =
     map (\<lambda>b. (b, sum_list (map bytes (filter (\<lambda>r. minute_floor (timestamp r) = b) rs))))
       (resample_bins rs)"

text \<open>
  \<^verbatim>\<open>Series.value_counts()\<close>: the distinct values with their counts, the largest count
  first; equal counts stay in order of first appearance.
\<close>

definition value_counts :: "string list \<Rightarrow> (string \<times> nat) list" where
  "value_counts xs =
     sort_key (\<lambda>(s, c). - int c) (map (\<lambda>s. (s, count_list xs s)) (rev (remdups (rev xs))))"

section \<open>Metrics Calculator\<close>

record attack_severity =
  overall_severity :: real
  volume_impact :: real
  duration_impact :: real
  service_impact :: real
  severity_level :: string

definition get_severity_level :: "real \<Rightarrow> string" where
  "get_severity_level score =
     (if score \<ge> 8 then ''Critical''
      else if score \<ge> 6 then ''High''
      else if score \<ge> 4 then ''Medium''
      else if score \<ge> 2 then ''Low''
      else ''Minimal'')"

definition calculate_attack_severity :: "real \<Rightarrow> real \<Rightarrow> real \<Rightarrow> int \<Rightarrow> attack_severity" where
  "calculate_attack_severity traffic_volume baseline_volume duration_minutes affected_services =
     (let volume_ratio = (if baseline_volume > 0 then traffic_volume / baseline_volume else 1);
          volume_score =
            (if volume_ratio > 10 then 4
             else if volume_ratio > 5 then 3
             else if volume_ratio > 2 then 2
             else if volume_ratio > 1.5 then 1
             else 0);
          duration_score =
            (if duration_minutes > 240 then 3
             else if duration_minutes > 60 then 2
             else if duration_minutes > 15 then 1
             else 0.5);
          service_score =
            (if affected_services > 5 then 3
             else if affected_services > 2 then 2
             else if affected_services > 0 then 1
             else 0);
          total_score = volume_score + duration_score + service_score
      in \<lparr>overall_severity = total_score,
          volume_impact = volume_score,
          duration_impact = duration_score,
          service_impact = service_score,
          severity_level = get_severity_level total_score\<rparr>)"

text \<open>
  The effectiveness dictionary is built key by key, in the order the source inserts
  them; it is an association list with distinct keys.
\<close>

definition improvement :: "(string \<rightharpoonup> real) \<Rightarrow> (string \<rightharpoonup> real) \<Rightarrow> string \<Rightarrow> string
    \<Rightarrow> (string \<times> real) list" where
  "improvement baseline_metrics current_metrics key out =
     (case (baseline_metrics key, current_metrics key) of
        (Some baseline, Some current) \<Rightarrow>
          (if baseline > 0
           then [(out, max 0 (min 100 (((baseline - current) / baseline) * 100)))]
           else [])
      | _ \<Rightarrow> [])"

definition calculate_mitigation_effectiveness ::
    "(string \<rightharpoonup> real) \<Rightarrow> (string \<rightharpoonup> real) \<Rightarrow> (string \<times> real) list" where
  "calculate_mitigation_effectiveness baseline_metrics current_metrics =
     (let effectiveness =
            improvement baseline_metrics current_metrics ''traffic_volume'' ''traffic_reduction''
          @ improvement baseline_metrics current_metrics ''response_time''
              ''response_time_improvement''
          @ improvement baseline_metrics current_metrics ''error_rate'' ''error_rate_reduction''
      in if effectiveness \<noteq> []
         then effectiveness
              @ [(''overall_effectiveness'',
                  sum_list (map snd effectiveness) / real (length effectiveness))]
         else effectiveness)"

record business_impact =
  direct_revenue_loss :: real
  recovery_costs :: real
  opportunity_cost :: real
  reputation_damage :: real
  total_business_impact :: real
  impact_per_hour :: real

definition default_reputation_impact_factor :: real where
  "default_reputation_impact_factor = 0.3"

definition calculate_business_impact :: "real \<Rightarrow> real \<Rightarrow> real \<Rightarrow> real \<Rightarrow> business_impact" where
  "calculate_business_impact hourly_revenue outage_duration_hours
       performance_degradation_percent reputation_impact_factor =
     (let direct_loss =
            (if performance_degradation_percent \<ge> 100
             then hourly_revenue * outage_duration_hours
             else hourly_revenue * outage_duration_hours
                    * (performance_degradation_percent / 100));
          recovery = direct_loss * 0.15;
          opportunity = direct_loss * 0.25;
          reputation = direct_loss * reputation_impact_factor;
          total_impact = direct_loss + recovery + opportunity + reputation
      in \<lparr>direct_revenue_loss = direct_loss,
          recovery_costs = recovery,
          opportunity_cost = opportunity,
          reputation_damage = reputation,
          total_business_impact = total_impact,
          impact_per_hour = total_impact / max outage_duration_hours 0.1\<rparr>)"

section \<open>Attack Pattern Analyzer\<close>

record attack_pattern =
  pat_description :: string
  characteristics :: "(string \<times> bool) list"
  detection_rules :: "string list"

text \<open>\<^verbatim>\<open>_load_known_patterns\<close>: the catalog, in the order the dictionary is written.\<close>

definition known_patterns :: "(string \<times> attack_pattern) list" where
  "known_patterns =
     [(''syn_flood'',
         \<lparr>pat_description = ''TCP SYN flood attack pattern'',
          characteristics = [(''high_syn_ratio'', True), (''incomplete_connections'', True),
                             (''rapid_connection_attempts'', True)],
          detection_rules = [''syn_packet_rate > normal_rate * 10'',
                             ''connection_completion_rate < 0.1'']\<rparr>),
      (''udp_flood'',
         \<lparr>pat_description = ''UDP flood attack pattern'',
          characteristics = [(''high_udp_volume'', True), (''random_ports'', True),
                             (''small_packet_sizes'', True)],
          detection_rules = [''udp_packet_rate > normal_rate * 5'',
                             ''port_distribution_entropy > threshold'']\<rparr>),
      (''http_flood'',
         \<lparr>pat_description = ''HTTP flood attack pattern'',
          characteristics = [(''high_request_rate'', True), (''similar_user_agents'', True),
                             (''repetitive_requests'', True)],
          detection_rules = [''http_request_rate > normal_rate * 3'',
                             ''user_agent_diversity < threshold'']\<rparr>),
      (''amplification'',
         \<lparr>pat_description = ''DNS/NTP amplification attack'',
          characteristics = [(''spoofed_sources'', True), (''large_response_packets'', True),
                             (''specific_query_types'', True)],
          detection_rules = [''response_size / request_size > 10'',
                             ''source_ip_spoofing_indicators'']\<rparr>)]"

datatype severity = Low | Medium | High

text \<open>
  One pattern's result. The indicator strings \<^verbatim>\<open>"Factor i: cf"\<close> are kept as the
  pairs \<open>(i, cf)\<close> they are formatted from.
\<close>

record pattern_match =
  pattern_name :: string
  description :: string
  confidence :: real
  indicators :: "(nat \<times> real) list"
  severity :: severity

definition analyze_syn_flood_pattern :: "data_frame \<Rightarrow> real list" where
  "analyze_syn_flood_pattern data =
     (if length (rows data) > 1000 then [0.7] else [])
     @ (if ''source_ip'' \<in> set (columns data)
        then (case value_counts (map source_ip (rows data)) of
                [] \<Rightarrow> []
              | (ip, top_count) # rest \<Rightarrow>
                  (if (real top_count / real (length (rows data))) * 100 > 30 then [0.8] else [0.3]))
        else [])"

definition analyze_udp_flood_pattern :: "data_frame \<Rightarrow> real list" where
  "analyze_udp_flood_pattern data =
     (if length (rows data) > 500 then [0.6] else [])
     @ (if ''source_ip'' \<in> set (columns data)
        then (let unique_sources = length (remdups (map source_ip (rows data)))
              in if unique_sources > 100 then [0.7] else [0.4])
        else [])"

definition analyze_http_flood_pattern :: "data_frame \<Rightarrow> real list" where
  "analyze_http_flood_pattern data =
     (if length (rows data) > 2000 then [0.8]
      else if length (rows data) > 800 then [0.5]
      else [0.2])"

definition analyze_amplification_pattern :: "data_frame \<Rightarrow> real list" where
  "analyze_amplification_pattern data =
     (if ''bytes'' \<in> set (columns data)
      then (let avg_size = series_mean (map bytes (rows data))
            in if fl_gt avg_size 1000 then [0.7] else [0.3])
      else [])"

definition analyze_specific_pattern :: "data_frame \<Rightarrow> string \<Rightarrow> pattern_match" where
  "analyze_specific_pattern data name =
     (let pattern = map_of known_patterns name;
          result = \<lparr>pattern_name = name,
                    description = (case pattern of None \<Rightarrow> '''' | Some p \<Rightarrow> pat_description p),
                    confidence = 0,
                    indicators = [],
                    severity = Low\<rparr>
      in if pattern = None \<or> df_empty data then result
         else
           let confidence_factors =
                 (if name = ''syn_flood'' then analyze_syn_flood_pattern data
                  else if name = ''udp_flood'' then analyze_udp_flood_pattern data
                  else if name = ''http_flood'' then analyze_http_flood_pattern data
                  else if name = ''amplification'' then analyze_amplification_pattern data
                  else []);
               result1 =
                 (if confidence_factors \<noteq> []
                  then result\<lparr>confidence :=
                                sum_list confidence_factors / real (length confidence_factors),
                              indicators :=
                                zip [1 ..< Suc (length confidence_factors)] confidence_factors\<rparr>
                  else result)
           in result1\<lparr>severity :=
                        (if confidence result1 > 0.8 then High
                         else if confidence result1 > 0.5 then Medium
                         else Low)\<rparr>)"

text \<open>
  \<^verbatim>\<open>_generate_recommendations\<close> ends with \<^verbatim>\<open>list(set(...))\<close>, whose order is
  not determined: the result is the set of recommendations.
\<close>

definition generate_recommendations :: "pattern_match list \<Rightarrow> string set" where
  "generate_recommendations detected_patterns =
     (if detected_patterns = []
      then {''No specific attack patterns detected - continue normal monitoring''}
      else
        let pattern_names =
              map pattern_name (filter (\<lambda>p. confidence p > 0.5) detected_patterns)
        in set ((if ''syn_flood'' \<in> set pattern_names
                 then [''Enable SYN cookies on servers'',
                       ''Configure SYN flood protection on firewalls'',
                       ''Implement connection rate limiting'']
                 else [])
              @ (if ''udp_flood'' \<in> set pattern_names
                 then [''Implement UDP rate limiting'',
                       ''Configure ingress filtering'',
                       ''Enable UDP flood protection'']
                 else [])
              @ (if ''http_flood'' \<in> set pattern_names
                 then [''Enable HTTP request rate limiting'',
                       ''Deploy Web Application Firewall (WAF)'',
                       ''Implement CAPTCHA challenges for suspicious sources'']
                 else [])
              @ (if ''amplification'' \<in> set pattern_names
                 then [''Implement BCP38 ingress filtering'',
                       ''Configure response rate limiting on public services'',
                       ''Monitor for source IP spoofing'']
                 else [])
              @ [''Activate enhanced monitoring and alerting'',
                 ''Consider enabling DDoS protection services'',
                 ''Document incident for future analysis'']))"

record pattern_report =
  detected_patterns :: "pattern_match list"
  confidence_scores :: "(string \<times> real) list"
  recommendations :: "string set"
  attack_characteristics :: "(string \<times> string) list"

text \<open>
  \<^verbatim>\<open>analyze_attack_pattern(traffic_data, attack_type=None)\<close>. The test
  \<^verbatim>\<open>if attack_type:\<close> holds for a string that is not empty.
\<close>

definition analyze_attack_pattern :: "data_frame \<Rightarrow> string option \<Rightarrow> pattern_report" where
  "analyze_attack_pattern traffic_data attack_type =
     (let results = \<lparr>detected_patterns = [], confidence_scores = [],
                     recommendations = {}, attack_characteristics = []\<rparr>
      in if df_empty traffic_data then results
         else
           let detected =
                 (case attack_type of
                    Some name \<Rightarrow>
                      (if name \<noteq> [] then [analyze_specific_pattern traffic_data name]
                       else filter (\<lambda>r. confidence r > 0.3)
                              (map (analyze_specific_pattern traffic_data)
                                 (map fst known_patterns)))
                  | None \<Rightarrow>
                      filter (\<lambda>r. confidence r > 0.3)
                        (map (analyze_specific_pattern traffic_data) (map fst known_patterns)))
           in results\<lparr>detected_patterns := detected,
                      recommendations := generate_recommendations detected\<rparr>)"

section \<open>Traffic Data Processor\<close>

text \<open>\<^verbatim>\<open>_calculate_entropy\<close>, on the counts of \<^verbatim>\<open>value_counts().values\<close>.\<close>

definition calculate_entropy :: "real list \<Rightarrow> real" where
  "calculate_entropy vals =
     (if vals = [] then 0
      else let total = sum_list vals
           in if total = 0 then 0
              else let probabilities = filter (\<lambda>p. p > 0) (map (\<lambda>v. v / total) vals)
                   in - sum_list (map (\<lambda>p. p * log 2 p) probabilities))"

record time_metrics =
  avg_requests_per_minute :: pyfloat
  max_requests_per_minute :: pyfloat
  std_requests_per_minute :: pyfloat
  avg_bytes_per_minute :: pyfloat
  max_bytes_per_minute :: pyfloat
  total_duration_minutes :: nat
  traffic_variability :: pyfloat

text \<open>
  \<^verbatim>\<open>_calculate_time_metrics\<close> calls \<^verbatim>\<open>data.set_index('timestamp', inplace=True)\<close>
  on the frame it is given, which is the caller's frame: the function returns the frame
  as it leaves it. The result \<open>None\<close> is the empty dictionary.
\<close>

definition calculate_time_metrics :: "data_frame \<Rightarrow> time_metrics option \<times> data_frame" where
  "calculate_time_metrics data =
     (if ''timestamp'' \<notin> set (columns data) then (None, data)
      else
        let data1 = set_index ''timestamp'' data;
            rpm_data = map (real \<circ> snd) (resample_size (rows data1));
            bpm_data = (if ''bytes'' \<in> set (columns data1)
                        then map snd (resample_bytes_sum (rows data1)) else [])
        in (Some \<lparr>avg_requests_per_minute =
                     (if rpm_data \<noteq> [] then series_mean rpm_data else Fin 0),
                   max_requests_per_minute =
                     (if rpm_data \<noteq> [] then series_max rpm_data else Fin 0),
                   std_requests_per_minute =
                     (if rpm_data \<noteq> [] then series_std rpm_data else Fin 0),
                   avg_bytes_per_minute =
                     (if bpm_data \<noteq> [] then series_mean bpm_data else Fin 0),
                   max_bytes_per_minute =
                     (if bpm_data \<noteq> [] then series_max bpm_data else Fin 0),
                   total_duration_minutes = length rpm_data,
                   traffic_variability =
                     (case series_mean rpm_data of
                        Fin m \<Rightarrow>
                          (if m > 0
                           then (case series_std rpm_data of Fin s \<Rightarrow> Fin (s / m) | NaN \<Rightarrow> NaN)
                           else Fin 0)
                      | NaN \<Rightarrow> Fin 0)\<rparr>,
            data1))"

record suspicious_source =
  ss_source_ip :: string
  ss_request_count :: nat
  ss_percentage :: real
  ss_reason :: string

definition identify_suspicious_sources :: "(string \<times> nat) list \<Rightarrow> suspicious_source list" where
  "identify_suspicious_sources source_counts =
     (if source_counts = [] then []
      else
        let total_requests = sum_list (map snd source_counts);
            threshold = real total_requests * 0.05;
            high_volume_sources = filter (\<lambda>(ip, c). real c > threshold) source_counts
        in map (\<lambda>(ip, c). \<lparr>ss_source_ip = ip,
                            ss_request_count = c,
                            ss_percentage = (real c / real total_requests) * 100,
                            ss_reason = ''High volume source''\<rparr>)
             high_volume_sources)"

record source_metrics =
  unique_source_ips :: nat
  top_source_requests :: nat
  top_10_source_percentage :: pyfloat
  source_ip_entropy :: real
  source_distribution :: "(string \<times> nat) list"
  suspicious_sources :: "suspicious_source list"

definition calculate_source_metrics :: "data_frame \<Rightarrow> source_metrics option" where
  "calculate_source_metrics data =
     (if ''source_ip'' \<notin> set (columns data) then None
      else
        let source_counts = value_counts (map source_ip (rows data));
            unique_sources = length source_counts;
            top_10_sources = take 10 source_counts;
            top_source_percentage =
              (if rows data = [] then NaN
               else Fin ((real (sum_list (map snd top_10_sources)) / real (length (rows data)))
                         * 100))
        in Some \<lparr>unique_source_ips = unique_sources,
                  top_source_requests =
                    (case source_counts of [] \<Rightarrow> 0 | (ip, c) # rest \<Rightarrow> c),
                  top_10_source_percentage = top_source_percentage,
                  source_ip_entropy = calculate_entropy (map (real \<circ> snd) source_counts),
                  source_distribution = take 20 source_counts,
                  suspicious_sources = identify_suspicious_sources source_counts\<rparr>)"

record bytes_metrics =
  total_bytes :: real
  avg_bytes_per_request :: pyfloat
  bytes_per_second :: real

record volume_metrics =
  total_requests :: nat
  requests_per_second :: real
  bytes_volume :: "bytes_metrics option"

definition calculate_volume_metrics :: "data_frame \<Rightarrow> volume_metrics" where
  "calculate_volume_metrics data =
     (let total = length (rows data)
      in \<lparr>total_requests = total,
          requests_per_second = (if total > 0 then real total / 3600 else 0),
          bytes_volume =
            (if ''bytes'' \<in> set (columns data)
             then (let sum_bytes = sum_list (map bytes (rows data))
                   in Some \<lparr>total_bytes = sum_bytes,
                             avg_bytes_per_request =
                               (if rows data \<noteq> [] then series_mean (map bytes (rows data))
                                else Fin 0),
                             bytes_per_second =
                               (if sum_bytes > 0 then sum_bytes / 3600 else 0)\<rparr>)
             else None)\<rparr>)"

record high_volume_period =
  hv_timestamp :: int
  hv_request_count :: nat
  hv_threshold :: pyfloat

record anomalies =
  high_volume_periods :: "high_volume_period list"
  source_concentration :: bool
  unusual_patterns :: "string list"
  anomaly_score :: real

definition calculate_anomaly_score :: "data_frame \<Rightarrow> anomalies \<Rightarrow> real" where
  "calculate_anomaly_score data an =
     (let score1 = (if high_volume_periods an \<noteq> []
                    then min 3.0 (real (length (high_volume_periods an)) * 0.5) else 0);
          score2 = score1 + (if source_concentration an then 3.0 else 0);
          score3 = score2 +
            (if ''source_ip'' \<in> set (columns data)
             then (let source_counts = value_counts (map source_ip (rows data))
                   in if source_counts \<noteq> []
                      then (let entropy = calculate_entropy (map (real \<circ> snd) source_counts);
                                max_possible_entropy = log 2 (real (length source_counts))
                            in if max_possible_entropy > 0
                               then (1 - entropy / max_possible_entropy) * 2.0
                               else 0)
                      else 0)
             else 0);
          score4 = score3 + (if length (rows data) > 1000 then 2.0 else 0)
      in min 10.0 score4)"

text \<open>
  \<^verbatim>\<open>_detect_traffic_anomalies\<close> uses \<^verbatim>\<open>data.set_index('timestamp')\<close> without
  \<^verbatim>\<open>inplace\<close>: it works on a copy and leaves its argument as it is.
\<close>

definition detect_traffic_anomalies :: "data_frame \<Rightarrow> anomalies" where
  "detect_traffic_anomalies data =
     (let an0 = \<lparr>high_volume_periods = [], source_concentration = False,
                 unusual_patterns = [], anomaly_score = 0\<rparr>
      in if df_empty data then an0
         else
           let an1 =
                 (if ''timestamp'' \<in> set (columns data)
                  then (let data_indexed = set_index ''timestamp'' data;
                            minute_counts = resample_size (rows data_indexed)
                        in if minute_counts \<noteq> []
                           then (let counts = map (real \<circ> snd) minute_counts;
                                     threshold =
                                       (case (series_mean counts, series_std counts) of
                                          (Fin m, Fin s) \<Rightarrow> Fin (m + 3 * s)
                                        | _ \<Rightarrow> NaN)
                                 in an0\<lparr>high_volume_periods :=
                                          map (\<lambda>(ts, c). \<lparr>hv_timestamp = ts * 60,
                                                          hv_request_count = c,
                                                          hv_threshold = threshold\<rparr>)
                                            (filter (\<lambda>(ts, c). gt_fl (real c) threshold)
                                               minute_counts)\<rparr>)
                           else an0)
                  else an0);
               an2 =
                 (if ''source_ip'' \<in> set (columns data)
                  then (case value_counts (map source_ip (rows data)) of
                          [] \<Rightarrow> an1
                        | (ip, top_count) # rest \<Rightarrow>
                            an1\<lparr>source_concentration :=
                                  (real top_count / real (length (rows data))) * 100 > 20\<rparr>)
                  else an1)
           in an2\<lparr>anomaly_score := calculate_anomaly_score data an2\<rparr>)"

text \<open>
  The result of \<^verbatim>\<open>process_traffic_data\<close> is a dictionary: the one with the single
  key \<^verbatim>\<open>'error'\<close>, or the report. \<^verbatim>\<open>processed_at\<close> is the clock's reading, an
  argument here. The function returns its result and the caller's frame as it leaves it;
  the assignment of \<^verbatim>\<open>pd.to_datetime\<close> to the timestamp column leaves instants as
  they are.
\<close>

datatype process_result =
    Error_Report string
  | Metrics_Report "time_metrics option" "source_metrics option" volume_metrics anomalies int

definition process_traffic_data :: "int \<Rightarrow> data_frame \<Rightarrow> process_result \<times> data_frame" where
  "process_traffic_data now traffic_data =
     (if df_empty traffic_data then (Error_Report ''No traffic data provided'', traffic_data)
      else
        let (time_m, data1) = calculate_time_metrics traffic_data;
            source_m = calculate_source_metrics data1;
            volume_m = calculate_volume_metrics data1;
            an = detect_traffic_anomalies data1
        in (Metrics_Report time_m source_m volume_m an now, data1))"

fun report_anomalies :: "process_result \<Rightarrow> anomalies option" where
  "report_anomalies (Error_Report e) = None"
| "report_anomalies (Metrics_Report time_m source_m volume_m an now) = Some an"

section \<open>Feature Extractor\<close>

text \<open>
  The feature table is built column by column. A table has the length of its index and
  its columns, each a series of that length. \<^verbatim>\<open>pd.DataFrame()\<close> has an empty index
  and no column; assigning a series that is not empty to a table whose index is empty
  makes the series' index the table's. Every series assigned below is computed from
  \<^verbatim>\<open>traffic_data\<close> and carries its index, so aligning it with the table's index
  keeps each value at its position.
\<close>

record feature_table =
  ft_nrows :: nat
  ft_columns :: "(string \<times> pyfloat list) list"

definition empty_features :: feature_table where
  "empty_features = \<lparr>ft_nrows = 0, ft_columns = []\<rparr>"

definition assign_column :: "string \<Rightarrow> pyfloat list \<Rightarrow> feature_table \<Rightarrow> feature_table" where
  "assign_column name series ft =
     (if ft_nrows ft = 0 \<and> series \<noteq> []
      then \<lparr>ft_nrows = length series,
            ft_columns = map (\<lambda>(c, s). (c, replicate (length series) NaN)) (ft_columns ft)
                         @ [(name, series)]\<rparr>
      else ft\<lparr>ft_columns := ft_columns ft @ [(name, series)]\<rparr>)"

text \<open>\<^verbatim>\<open>dt.hour\<close>, \<^verbatim>\<open>dt.dayofweek\<close> (Monday is 0; the epoch was a Thursday), \<^verbatim>\<open>dt.minute\<close>.\<close>

definition dt_hour :: "int \<Rightarrow> int" where
  "dt_hour t = (t div 3600) mod 24"

definition dt_dayofweek :: "int \<Rightarrow> int" where
  "dt_dayofweek t = (t div 86400 + 3) mod 7"

definition dt_minute :: "int \<Rightarrow> int" where
  "dt_minute t = (t div 60) mod 60"

text \<open>\<^verbatim>\<open>Series.map(counts)\<close>: a value that is not a key of \<open>counts\<close> maps to NaN.\<close>

definition map_counts :: "('a \<times> nat) list \<Rightarrow> 'a \<Rightarrow> pyfloat" where
  "map_counts counts k = (case map_of counts k of Some c \<Rightarrow> Fin (real c) | None \<Rightarrow> NaN)"

definition entropy_contribution :: "pyfloat \<Rightarrow> pyfloat" where
  "entropy_contribution p =
     (case p of Fin x \<Rightarrow> (if x > 0 then Fin (- x * log 2 x) else Fin 0) | NaN \<Rightarrow> Fin 0)"

definition normalize_size :: "pyfloat \<Rightarrow> pyfloat \<Rightarrow> real \<Rightarrow> pyfloat" where
  "normalize_size m s x =
     (case (m, s) of
        (Fin mean_v, Fin std_v) \<Rightarrow> (if std_v = 0 then NaN else Fin ((x - mean_v) / std_v))
      | _ \<Rightarrow> NaN)"

definition extract_traffic_features :: "data_frame \<Rightarrow> feature_table" where
  "extract_traffic_features traffic_data =
     (if df_empty traffic_data then empty_features
      else
        let rs = rows traffic_data;
            features0 = empty_features;
            features1 =
              (if ''timestamp'' \<in> set (columns traffic_data)
               then assign_column ''minute'' (map (\<lambda>r. Fin (real_of_int (dt_minute (timestamp r)))) rs)
                     (assign_column ''day_of_week''
                        (map (\<lambda>r. Fin (real_of_int (dt_dayofweek (timestamp r)))) rs)
                        (assign_column ''hour''
                           (map (\<lambda>r. Fin (real_of_int (dt_hour (timestamp r)))) rs) features0))
               else features0);
            features2 =
              (if ''source_ip'' \<in> set (columns traffic_data)
               then (let ip_counts = value_counts (map source_ip rs);
                         total_requests = length rs
                     in assign_column ''source_ip_entropy''
                          (map (\<lambda>r. entropy_contribution
                                       (case map_counts ip_counts (source_ip r) of
                                          Fin c \<Rightarrow> Fin (c / real total_requests)
                                        | NaN \<Rightarrow> NaN)) rs)
                          (assign_column ''source_ip_frequency''
                             (map (\<lambda>r. map_counts ip_counts (source_ip r)) rs) features1))
               else features1);
            features3 =
              (if ''bytes'' \<in> set (columns traffic_data)
               then (let sizes = map bytes rs
                     in assign_column ''request_size_normalized''
                          (map (\<lambda>r. normalize_size (series_mean sizes) (series_std sizes) (bytes r))
                             rs)
                          (assign_column ''request_size'' (map (\<lambda>r. Fin (bytes r)) rs) features2))
               else features2);
            features4 =
              (if ''timestamp'' \<in> set (columns traffic_data)
               then (let minute_counts = resample_size rs
                     in assign_column ''requests_per_minute''
                          (map (\<lambda>r. map_counts minute_counts (minute_floor (timestamp r))) rs)
                          features3)
               else features3)
        in features4)"

text \<open>The row of a feature table at a position: each column's label with its value there.\<close>

definition ft_row :: "feature_table \<Rightarrow> nat \<Rightarrow> (string \<times> pyfloat) list" where
  "ft_row ft i = map (\<lambda>(c, s). (c, s ! i)) (ft_columns ft)"

section \<open>The specification's formulations\<close>

text \<open>
  The feature row of one observation as the specification describes it: hour, day of week
  and minute of the timestamp; the number of observations of the batch with its source
  and \<open>-p log\<^sub>2 p\<close> for \<open>p\<close> that number over the batch size; its size and the size
  normalised by mean and standard deviation; the number of observations in its minute.
\<close>

definition spec_feature_row :: "data_frame \<Rightarrow> observation \<Rightarrow> (string \<times> pyfloat) list" where
  "spec_feature_row batch r =
     (let rs = rows batch;
          frequency = real (length (filter (\<lambda>q. source_ip q = source_ip r) rs));
          p = frequency / real (length rs);
          sizes = map bytes rs
      in (if ''timestamp'' \<in> set (columns batch)
          then [(''hour'', Fin (real_of_int (dt_hour (timestamp r)))),
                (''day_of_week'', Fin (real_of_int (dt_dayofweek (timestamp r)))),
                (''minute'', Fin (real_of_int (dt_minute (timestamp r))))]
          else [])
       @ (if ''source_ip'' \<in> set (columns batch)
          then [(''source_ip_frequency'', Fin frequency),
                (''source_ip_entropy'', Fin (- p * log 2 p))]
          else [])
       @ (if ''bytes'' \<in> set (columns batch)
          then [(''request_size'', Fin (bytes r)),
                (''request_size_normalized'',
                 normalize_size (series_mean sizes) (series_std sizes) (bytes r))]
          else [])
       @ (if ''timestamp'' \<in> set (columns batch)
          then [(''requests_per_minute'',
                 Fin (real (length (filter (\<lambda>q. minute_floor (timestamp q)
                                                = minute_floor (timestamp r)) rs))))]
          else []))"

text \<open>
  The zeroed report the specification expects of an empty batch: no error, all counts
  and totals 0, entropy 0, anomaly score 0.
\<close>

fun spec_zeroed_report :: "process_result \<Rightarrow> bool" where
  "spec_zeroed_report (Error_Report e) = False"
| "spec_zeroed_report (Metrics_Report time_m source_m volume_m an now) =
     (total_requests volume_m = 0
      \<and> (case bytes_volume volume_m of None \<Rightarrow> True | Some b \<Rightarrow> total_bytes b = 0)
      \<and> (case source_m of None \<Rightarrow> True
          | Some s \<Rightarrow> unique_source_ips s = 0 \<and> top_source_requests s = 0
                      \<and> source_ip_entropy s = 0)
      \<and> (case time_m of None \<Rightarrow> True | Some t \<Rightarrow> total_duration_minutes t = 0)
      \<and> high_volume_periods an = []
      \<and> anomaly_score an = 0)"

text \<open>
  The specification's composite score: the normalised entropy is the entropy over
  \<open>log\<^sub>2\<close> of the number of distinct sources, and 0 when there is at most one.
\<close>

definition spec_normalized_entropy :: "string list \<Rightarrow> real" where
  "spec_normalized_entropy sources =
     (let unique_source_count = length (remdups sources)
      in if unique_source_count \<le> 1 then 0
         else calculate_entropy (map (real \<circ> snd) (value_counts sources))
              / log 2 (real unique_source_count))"

definition spec_anomaly_score :: "data_frame \<Rightarrow> nat \<Rightarrow> bool \<Rightarrow> real" where
  "spec_anomaly_score batch high_volume_windows concentration_flag =
     min 10 (0.5 * real (min 6 high_volume_windows)
             + (if concentration_flag then 3.0 else 0)
             + 2.0 * (1 - spec_normalized_entropy
                            (if ''source_ip'' \<in> set (columns batch)
                             then map source_ip (rows batch) else []))
             + (if length (rows batch) > 1000 then 2.0 else 0))"

text \<open>
  The entropy term of the score as the source computes it: present only for a frame with
  a source column and at least two distinct sources.
\<close>

definition entropy_term :: "data_frame \<Rightarrow> real" where
  "entropy_term data =
     (if ''source_ip'' \<in> set (columns data)
         \<and> length (remdups (map source_ip (rows data))) \<ge> 2
      then 2.0 * (1 - calculate_entropy (map (real \<circ> snd) (value_counts (map source_ip (rows data))))
                      / log 2 (real (length (remdups (map source_ip (rows data))))))
      else 0)"

section \<open>Example batches\<close>

definition obs :: "int \<Rightarrow> string \<Rightarrow> real \<Rightarrow> observation" where
  "obs t ip sz = \<lparr>timestamp = t, source_ip = ip, bytes = sz\<rparr>"

definition full_columns :: "string list" where
  "full_columns = [''timestamp'', ''source_ip'', ''bytes'']"

definition no_rows_frame :: data_frame where
  "no_rows_frame = \<lparr>columns = full_columns, index = RangeIndex, rows = []\<rparr>"

definition one_row_frame :: data_frame where
  "one_row_frame =
     \<lparr>columns = full_columns, index = RangeIndex, rows = [obs 0 ''10.0.0.1'' 500]\<rparr>"

definition single_source_frame :: data_frame where
  "single_source_frame =
     \<lparr>columns = [''source_ip''], index = RangeIndex, rows = [obs 0 ''10.0.0.1'' 500]\<rparr>"

definition two_source_frame :: data_frame where
  "two_source_frame =
     \<lparr>columns = [''source_ip''], index = RangeIndex,
      rows = [obs 0 ''10.0.0.1'' 500, obs 1 ''10.0.0.2'' 500]\<rparr>"

definition unlabelled_frame :: data_frame where
  "unlabelled_frame =
     \<lparr>columns = [''attack_type''], index = RangeIndex, rows = [obs 0 ''10.0.0.1'' 500]\<rparr>"

definition flood_frame :: "nat \<Rightarrow> data_frame" where
  "flood_frame n =
     \<lparr>columns = full_columns, index = RangeIndex, rows = replicate n (obs 0 ''10.0.0.1'' 500)\<rparr>"

definition before_metrics :: "string \<rightharpoonup> real" where
  "before_metrics = [''traffic_volume'' \<mapsto> 200, ''response_time'' \<mapsto> 10]"

definition after_metrics :: "string \<rightharpoonup> real" where
  "after_metrics = [''traffic_volume'' \<mapsto> 50]"

section \<open>Auxiliary facts\<close>

lemma mean_le:
  fixes xs :: "real list"
  assumes "\<forall>x \<in> set xs. x \<le> b" and "xs \<noteq> []"
  shows "sum_list xs / real (length xs) \<le> b"
proof -
  have hi: "sum_list xs \<le> b * real (length xs)" using assms(1)
    by (induction xs) (auto simp: algebra_simps)
  have pos: "0 < real (length xs)" using assms(2) by simp
  show ?thesis using hi pos by (simp add: divide_le_eq)
qed

lemma mean_nonneg:
  fixes xs :: "real list"
  assumes "\<forall>x \<in> set xs. 0 \<le> x"
  shows "0 \<le> sum_list xs / real (length xs)"
  using assms by (simp add: sum_list_nonneg)

section \<open>Metrics Calculator: properties\<close>

text \<open>
  C4. The scenario \<open>attack_severity(1000, 100, 300, 6)\<close> is claimed to give volume score 4
  and overall severity 10. The volume ratio is exactly 10 and the test is the strict
  \<open>volume_ratio > 10\<close>, so the claimed values are not the ones computed.
\<close>

theorem attack_severity_scenario_not_as_claimed:
  "\<not> (volume_impact (calculate_attack_severity 1000 100 300 6) = 4
      \<and> duration_impact (calculate_attack_severity 1000 100 300 6) = 3
      \<and> service_impact (calculate_attack_severity 1000 100 300 6) = 3
      \<and> overall_severity (calculate_attack_severity 1000 100 300 6) = 10
      \<and> severity_level (calculate_attack_severity 1000 100 300 6) = ''Critical'')"
  by (simp add: calculate_attack_severity_def Let_def)

text \<open>
  C4, as the code has it: the scenario gives volume score 3, duration score 3, service
  score 3, overall severity 9 and the level \<open>Critical\<close>.
\<close>

theorem attack_severity_scenario:
  "calculate_attack_severity 1000 100 300 6 =
     \<lparr>overall_severity = 9, volume_impact = 3, duration_impact = 3, service_impact = 3,
      severity_level = ''Critical''\<rparr>"
  by (simp add: calculate_attack_severity_def get_severity_level_def Let_def)

text \<open>
  C7. \<open>business_impact(10000, 4, 100)\<close> with the default reputation factor gives direct
  loss 40000, recovery costs 6000, opportunity cost 10000, reputation damage 12000 and
  total 68000.
\<close>

theorem business_impact_scenario:
  "direct_revenue_loss (calculate_business_impact 10000 4 100 default_reputation_impact_factor)
     = 40000
   \<and> recovery_costs (calculate_business_impact 10000 4 100 default_reputation_impact_factor)
     = 6000
   \<and> opportunity_cost (calculate_business_impact 10000 4 100 default_reputation_impact_factor)
     = 10000
   \<and> reputation_damage (calculate_business_impact 10000 4 100 default_reputation_impact_factor)
     = 12000
   \<and> total_business_impact
       (calculate_business_impact 10000 4 100 default_reputation_impact_factor) = 68000"
  by (simp add: calculate_business_impact_def default_reputation_impact_factor_def Let_def)

lemma improvement_range:
  "(k, v) \<in> set (improvement b c key out) \<Longrightarrow> k = out \<and> 0 \<le> v \<and> v \<le> 100"
  by (auto simp: improvement_def split: option.splits if_splits)

lemma improvement_absent:
  "b key = None \<or> c key = None \<Longrightarrow> improvement b c key out = []"
  by (auto simp: improvement_def split: option.splits)

lemma improvements_range:
  assumes "(k, v) \<in> set (improvement b c ''traffic_volume'' ''traffic_reduction''
                          @ improvement b c ''response_time'' ''response_time_improvement''
                          @ improvement b c ''error_rate'' ''error_rate_reduction'')"
  shows "k \<noteq> ''overall_effectiveness'' \<and> 0 \<le> v \<and> v \<le> 100"
  using assms by (auto dest: improvement_range)

text \<open>
  C8. Every improvement that \<open>mitigation_effectiveness\<close> reports (and their mean, the
  overall value) lies in \<open>[0, 100]\<close>; a metric absent from either input has no entry;
  when each of the three metrics is absent from one of the inputs the result is the
  empty report, without an overall entry. The function is total: no error is raised.
\<close>

theorem mitigation_effectiveness_clamped:
  "((k, v) \<in> set (calculate_mitigation_effectiveness b c) \<longrightarrow> 0 \<le> v \<and> v \<le> 100)
   \<and> (b ''traffic_volume'' = None \<or> c ''traffic_volume'' = None
        \<longrightarrow> map_of (calculate_mitigation_effectiveness b c) ''traffic_reduction'' = None)
   \<and> (b ''response_time'' = None \<or> c ''response_time'' = None
        \<longrightarrow> map_of (calculate_mitigation_effectiveness b c) ''response_time_improvement''
            = None)
   \<and> (b ''error_rate'' = None \<or> c ''error_rate'' = None
        \<longrightarrow> map_of (calculate_mitigation_effectiveness b c) ''error_rate_reduction'' = None)
   \<and> ((b ''traffic_volume'' = None \<or> c ''traffic_volume'' = None)
        \<and> (b ''response_time'' = None \<or> c ''response_time'' = None)
        \<and> (b ''error_rate'' = None \<or> c ''error_rate'' = None)
        \<longrightarrow> calculate_mitigation_effectiveness b c = []
            \<and> map_of (calculate_mitigation_effectiveness b c) ''overall_effectiveness'' = None)"
proof -
  let ?e = "improvement b c ''traffic_volume'' ''traffic_reduction''
            @ improvement b c ''response_time'' ''response_time_improvement''
            @ improvement b c ''error_rate'' ''error_rate_reduction''"
  have res: "calculate_mitigation_effectiveness b c =
      (if ?e \<noteq> [] then ?e @ [(''overall_effectiveness'',
                               sum_list (map snd ?e) / real (length ?e))] else ?e)"
    by (simp add: calculate_mitigation_effectiveness_def Let_def)
  have each: "\<forall>x \<in> set (map snd ?e). 0 \<le> x \<and> x \<le> 100"
    using improvements_range [of _ _ b c] by fastforce
  have mean_hi: "?e \<noteq> [] \<Longrightarrow> sum_list (map snd ?e) / real (length ?e) \<le> 100"
    using mean_le [of "map snd ?e" 100] each by simp
  have mean_lo: "0 \<le> sum_list (map snd ?e) / real (length ?e)"
    using mean_nonneg [of "map snd ?e"] each by simp
  have range: "(k, v) \<in> set (calculate_mitigation_effectiveness b c) \<longrightarrow> 0 \<le> v \<and> v \<le> 100"
  proof
    assume "(k, v) \<in> set (calculate_mitigation_effectiveness b c)"
    then consider "(k, v) \<in> set ?e"
      | "?e \<noteq> []" "v = sum_list (map snd ?e) / real (length ?e)"
      unfolding res by (auto split: if_splits)
    then show "0 \<le> v \<and> v \<le> 100"
    proof cases
      case 1
      then show ?thesis using improvements_range [of k v b c] by simp
    next
      case 2
      then show ?thesis using mean_hi mean_lo by simp
    qed
  qed
  have keys: "fst ` set ?e \<subseteq> (if b ''traffic_volume'' = None \<or> c ''traffic_volume'' = None
                               then {} else {''traffic_reduction''})
                          \<union> (if b ''response_time'' = None \<or> c ''response_time'' = None
                               then {} else {''response_time_improvement''})
                          \<union> (if b ''error_rate'' = None \<or> c ''error_rate'' = None
                               then {} else {''error_rate_reduction''})"
    by (auto simp: improvement_def split: option.splits if_splits)
  have all_keys: "fst ` set (calculate_mitigation_effectiveness b c)
                    \<subseteq> fst ` set ?e \<union> {''overall_effectiveness''}"
    unfolding res by auto
  have skip1: "b ''traffic_volume'' = None \<or> c ''traffic_volume'' = None
        \<longrightarrow> map_of (calculate_mitigation_effectiveness b c) ''traffic_reduction'' = None"
    using keys all_keys by (auto simp: map_of_eq_None_iff split: if_splits)
  have skip2: "b ''response_time'' = None \<or> c ''response_time'' = None
        \<longrightarrow> map_of (calculate_mitigation_effectiveness b c) ''response_time_improvement''
            = None"
    using keys all_keys by (auto simp: map_of_eq_None_iff split: if_splits)
  have skip3: "b ''error_rate'' = None \<or> c ''error_rate'' = None
        \<longrightarrow> map_of (calculate_mitigation_effectiveness b c) ''error_rate_reduction'' = None"
    using keys all_keys by (auto simp: map_of_eq_None_iff split: if_splits)
  have none: "(b ''traffic_volume'' = None \<or> c ''traffic_volume'' = None)
        \<and> (b ''response_time'' = None \<or> c ''response_time'' = None)
        \<and> (b ''error_rate'' = None \<or> c ''error_rate'' = None)
        \<longrightarrow> calculate_mitigation_effectiveness b c = []
            \<and> map_of (calculate_mitigation_effectiveness b c) ''overall_effectiveness'' = None"
    unfolding res by (simp add: improvement_absent)
  show ?thesis using range skip1 skip2 skip3 none by blast
qed

theorem mitigation_effectiveness_clamped_witness:
  "(''traffic_reduction'', 75) \<in> set (calculate_mitigation_effectiveness before_metrics after_metrics)
   \<and> after_metrics ''response_time'' = None
   \<and> map_of (calculate_mitigation_effectiveness before_metrics after_metrics)
        ''response_time_improvement'' = None
   \<and> before_metrics ''error_rate'' = None
   \<and> map_of (calculate_mitigation_effectiveness before_metrics after_metrics)
        ''error_rate_reduction'' = None
   \<and> calculate_mitigation_effectiveness Map.empty Map.empty = []"
proof -
  have m: "(''traffic_reduction'', 75)
             \<in> set (calculate_mitigation_effectiveness before_metrics after_metrics)"
    by (simp add: calculate_mitigation_effectiveness_def improvement_def before_metrics_def
        after_metrics_def Let_def)
  have a: "after_metrics ''response_time'' = None" by (simp add: after_metrics_def)
  have b: "before_metrics ''error_rate'' = None" by (simp add: before_metrics_def)
  show ?thesis
    using m a b
      mitigation_effectiveness_clamped [of "''traffic_reduction''" 75 before_metrics after_metrics]
      mitigation_effectiveness_clamped [of "''x''" 0 Map.empty Map.empty]
    by simp
qed

section \<open>Attack Pattern Analyzer: properties\<close>

lemma factors_syn: "x \<in> set (analyze_syn_flood_pattern data) \<Longrightarrow> x \<le> 0.8"
  unfolding analyze_syn_flood_pattern_def
  by (cases "''source_ip'' \<in> set (columns data)"; cases "1000 < length (rows data)";
      cases "value_counts (map source_ip (rows data))")
     (auto split: if_splits prod.splits)

lemma factors_udp: "x \<in> set (analyze_udp_flood_pattern data) \<Longrightarrow> x \<le> 0.8"
  by (auto simp: analyze_udp_flood_pattern_def Let_def split: if_splits)

lemma factors_http: "x \<in> set (analyze_http_flood_pattern data) \<Longrightarrow> x \<le> 0.8"
  by (auto simp: analyze_http_flood_pattern_def split: if_splits)

lemma factors_amp: "x \<in> set (analyze_amplification_pattern data) \<Longrightarrow> x \<le> 0.8"
  by (auto simp: analyze_amplification_pattern_def Let_def split: if_splits)

lemma factors_le:
  "\<forall>x \<in> set (if name = ''syn_flood'' then analyze_syn_flood_pattern data
                 else if name = ''udp_flood'' then analyze_udp_flood_pattern data
                 else if name = ''http_flood'' then analyze_http_flood_pattern data
                 else if name = ''amplification'' then analyze_amplification_pattern data
                 else []). x \<le> 0.8"
  using factors_syn [of _ data] factors_udp [of _ data] factors_http [of _ data]
    factors_amp [of _ data]
  by simp

lemma confidence_cases:
  "confidence (analyze_specific_pattern data name) = 0
   \<or> (\<exists>cf. cf \<noteq> [] \<and> (\<forall>x \<in> set cf. x \<le> 0.8)
           \<and> confidence (analyze_specific_pattern data name) = sum_list cf / real (length cf))"
proof -
  define cf where
    "cf = (if name = ''syn_flood'' then analyze_syn_flood_pattern data
           else if name = ''udp_flood'' then analyze_udp_flood_pattern data
           else if name = ''http_flood'' then analyze_http_flood_pattern data
           else if name = ''amplification'' then analyze_amplification_pattern data
           else [])"
  have b: "\<forall>x \<in> set cf. x \<le> 0.8"
    unfolding cf_def by (rule factors_le)
  have c: "confidence (analyze_specific_pattern data name) =
             (if map_of known_patterns name = None \<or> df_empty data \<or> cf = [] then 0
              else sum_list cf / real (length cf))"
    by (simp add: analyze_specific_pattern_def Let_def cf_def [symmetric])
  show ?thesis
  proof (cases "map_of known_patterns name = None \<or> df_empty data \<or> cf = []")
    case True
    then show ?thesis using c by simp
  next
    case False
    have e: "confidence (analyze_specific_pattern data name)
        = sum_list cf / real (length cf)"
      unfolding c by (rule if_not_P [OF False])
    have "cf \<noteq> []" using False by blast
    then show ?thesis using b e by blast
  qed
qed

lemma confidence_le: "confidence (analyze_specific_pattern data name) \<le> 0.8"
proof -
  consider "confidence (analyze_specific_pattern data name) = 0"
    | cf where "cf \<noteq> []" "\<forall>x \<in> set cf. x \<le> 0.8"
        "confidence (analyze_specific_pattern data name) = sum_list cf / real (length cf)"
    using confidence_cases [of data name] by blast
  then show ?thesis
  proof cases
    case 1
    then show ?thesis by simp
  next
    case 2
    then show ?thesis using mean_le [of cf "0.8"] by simp
  qed
qed

lemma severity_by_confidence:
  "severity (analyze_specific_pattern data name) =
     (if confidence (analyze_specific_pattern data name) > 0.8 then High
      else if confidence (analyze_specific_pattern data name) > 0.5 then Medium
      else Low)"
  by (simp add: analyze_specific_pattern_def Let_def)

lemma http_flood_2001:
  "confidence (analyze_specific_pattern (flood_frame 2001) ''http_flood'') = 0.8"
  by (simp add: analyze_specific_pattern_def known_patterns_def df_empty_def flood_frame_def
      full_columns_def analyze_http_flood_pattern_def Let_def)

lemma http_flood_801:
  "confidence (analyze_specific_pattern (flood_frame 801) ''http_flood'') = 0.5"
  by (simp add: analyze_specific_pattern_def known_patterns_def df_empty_def flood_frame_def
      full_columns_def analyze_http_flood_pattern_def Let_def)

lemma one_row_frame_not_empty: "\<not> df_empty one_row_frame"
  by (simp add: df_empty_def one_row_frame_def full_columns_def)

text \<open>
  C2. For a batch that is not empty and a pattern name that is not in the catalog, the
  claim expects a failure and no entry for the name. The analyzer has no failing path:
  it reports the name with an empty description and confidence 0.
\<close>

theorem unknown_pattern_entry_emitted:
  "map pattern_name
     (detected_patterns (analyze_attack_pattern one_row_frame (Some ''slowloris'')))
   = [''slowloris'']"
  by (simp add: analyze_attack_pattern_def analyze_specific_pattern_def df_empty_def
      one_row_frame_def full_columns_def known_patterns_def Let_def)

text \<open>
  C2, as the code has it: for every batch that is not empty and every name (not the empty
  string) that is not in the catalog, the analyzer returns a report with exactly one
  entry, for that name, with an empty description, confidence 0, no indicators and
  severity low, and with the three general recommendations.
\<close>

theorem unknown_pattern_reported_low:
  assumes "\<not> df_empty data" and "name \<noteq> []" and "name \<notin> set (map fst known_patterns)"
  shows "analyze_attack_pattern data (Some name) =
    \<lparr>detected_patterns = [\<lparr>pattern_name = name, description = [], confidence = 0,
                           indicators = [], severity = Low\<rparr>],
     confidence_scores = [],
     recommendations = {''Activate enhanced monitoring and alerting'',
                        ''Consider enabling DDoS protection services'',
                        ''Document incident for future analysis''},
     attack_characteristics = []\<rparr>"
proof -
  have n: "map_of known_patterns name = None"
    using assms(3) by (simp add: map_of_eq_None_iff)
  have r: "analyze_specific_pattern data name =
     \<lparr>pattern_name = name, description = [], confidence = 0, indicators = [], severity = Low\<rparr>"
    by (simp add: analyze_specific_pattern_def n Let_def)
  show ?thesis using assms(1,2)
    by (simp add: analyze_attack_pattern_def r generate_recommendations_def Let_def)
qed

theorem unknown_pattern_reported_low_witness:
  "\<not> df_empty one_row_frame \<and> ''slowloris'' \<noteq> []
   \<and> ''slowloris'' \<notin> set (map fst known_patterns)
   \<and> analyze_attack_pattern one_row_frame (Some ''slowloris'') =
    \<lparr>detected_patterns = [\<lparr>pattern_name = ''slowloris'', description = [], confidence = 0,
                           indicators = [], severity = Low\<rparr>],
     confidence_scores = [],
     recommendations = {''Activate enhanced monitoring and alerting'',
                        ''Consider enabling DDoS protection services'',
                        ''Document incident for future analysis''},
     attack_characteristics = []\<rparr>"
proof -
  have h1: "\<not> df_empty one_row_frame" by (rule one_row_frame_not_empty)
  have h2: "''slowloris'' \<noteq> []" by simp
  have h3: "''slowloris'' \<notin> set (map fst known_patterns)" by (simp add: known_patterns_def)
  show ?thesis using h1 h2 h3 unknown_pattern_reported_low [OF h1 h2 h3] by simp
qed

text \<open>
  C5. For every batch and every pattern name, the severity tier of the result follows
  from its confidence by strict thresholds: high exactly when the confidence is above
  0.8, medium exactly when it is above 0.5 and at most 0.8, low otherwise; a confidence
  of exactly 0.8 gives medium and one of exactly 0.5 gives low.
\<close>

theorem severity_tier_strict_thresholds:
  "(severity (analyze_specific_pattern data name) = High
      \<longleftrightarrow> confidence (analyze_specific_pattern data name) > 0.8)
   \<and> (severity (analyze_specific_pattern data name) = Medium
      \<longleftrightarrow> 0.5 < confidence (analyze_specific_pattern data name)
          \<and> confidence (analyze_specific_pattern data name) \<le> 0.8)
   \<and> (severity (analyze_specific_pattern data name) = Low
      \<longleftrightarrow> confidence (analyze_specific_pattern data name) \<le> 0.5)
   \<and> (confidence (analyze_specific_pattern data name) = 0.8
      \<longrightarrow> severity (analyze_specific_pattern data name) = Medium)
   \<and> (confidence (analyze_specific_pattern data name) = 0.5
      \<longrightarrow> severity (analyze_specific_pattern data name) = Low)"
  using severity_by_confidence [of data name] by (auto split: if_splits)

theorem severity_tier_strict_thresholds_witness:
  "confidence (analyze_specific_pattern (flood_frame 2001) ''http_flood'') = 0.8
   \<and> severity (analyze_specific_pattern (flood_frame 2001) ''http_flood'') = Medium
   \<and> confidence (analyze_specific_pattern (flood_frame 801) ''http_flood'') = 0.5
   \<and> severity (analyze_specific_pattern (flood_frame 801) ''http_flood'') = Low"
  using http_flood_2001 http_flood_801
    severity_tier_strict_thresholds [of "flood_frame 2001" "''http_flood''"]
    severity_tier_strict_thresholds [of "flood_frame 801" "''http_flood''"]
  by simp

text \<open>
  C10. For every batch and every name of the built-in catalog, the confidence is at most
  0.8, and so the severity tier is never high.
\<close>

theorem builtin_confidence_at_most_08:
  assumes "name \<in> set (map fst known_patterns)"
  shows "confidence (analyze_specific_pattern data name) \<le> 0.8
         \<and> severity (analyze_specific_pattern data name) \<noteq> High"
  using confidence_le [of data name] severity_by_confidence [of data name] by simp

theorem builtin_confidence_at_most_08_witness:
  "''syn_flood'' \<in> set (map fst known_patterns)
   \<and> confidence (analyze_specific_pattern one_row_frame ''syn_flood'') \<le> 0.8
   \<and> severity (analyze_specific_pattern one_row_frame ''syn_flood'') \<noteq> High"
proof -
  have h: "''syn_flood'' \<in> set (map fst known_patterns)" by (simp add: known_patterns_def)
  show ?thesis using h builtin_confidence_at_most_08 [OF h, of one_row_frame] by simp
qed

section \<open>Traffic Data Processor: properties\<close>

text \<open>
  C1. An empty batch is claimed to give a zeroed report and no error. The processor
  tests \<^verbatim>\<open>traffic_data.empty\<close> first and returns the error dictionary.
\<close>

theorem empty_batch_not_zeroed_report:
  "\<not> spec_zeroed_report (fst (process_traffic_data 0 no_rows_frame))"
  by (simp add: process_traffic_data_def df_empty_def no_rows_frame_def)

text \<open>
  C1, as the code has it: for every empty batch (no rows, or no columns) the processor
  raises nothing and returns the dictionary \<^verbatim>\<open>{'error': 'No traffic data provided'}\<close>,
  which holds no count, total, entropy or score; the batch is left as it was.
\<close>

theorem process_empty_batch_returns_error:
  assumes "df_empty batch"
  shows "process_traffic_data now batch = (Error_Report ''No traffic data provided'', batch)"
  using assms by (simp add: process_traffic_data_def)

theorem process_empty_batch_returns_error_witness:
  "df_empty no_rows_frame
   \<and> process_traffic_data 0 no_rows_frame
       = (Error_Report ''No traffic data provided'', no_rows_frame)"
proof -
  have h: "df_empty no_rows_frame" by (simp add: df_empty_def no_rows_frame_def)
  show ?thesis using h process_empty_batch_returns_error [OF h, of 0] by simp
qed

text \<open>
  C3. The processor is claimed to leave its input as it was. On a batch with a timestamp
  column, \<^verbatim>\<open>_calculate_time_metrics\<close> sets the index in place: after the call the
  caller's frame has lost its timestamp column, which has become the index.
\<close>

theorem process_moves_timestamp_to_index:
  "snd (process_traffic_data 0 one_row_frame) =
     \<lparr>columns = [''source_ip'', ''bytes''], index = ColumnIndex ''timestamp'',
      rows = [obs 0 ''10.0.0.1'' 500]\<rparr>
   \<and> snd (process_traffic_data 0 one_row_frame) \<noteq> one_row_frame"
  by (simp add: process_traffic_data_def calculate_time_metrics_def set_index_def df_empty_def
      one_row_frame_def full_columns_def Let_def split_def)


end
